theory Spec2Isabelle
  imports Main "HOL-Library.Signed_Division"
begin

section \<open>The Kenwood TM-V71 backend (rigs/kenwood/tmv71.c)\<close>

text \<open>
  A shallow embedding of the virtual-VFO backend. C \<open>int\<close>, \<open>long\<close>, \<open>vfo_t\<close> and
  \<open>tone_t\<close> values are HOL integers: no operation of the modelled functions can
  overflow on values that fit the C types. \<open>freq_t\<close> is a \<open>double\<close> in the source; the
  wire format carries frequencies as ten decimal digits, and the embedding keeps them
  as integral Hz. Output parameters are returned as values; a function parameter whose
  source name is also a field name carries a prime (\<open>freq'\<close>, \<open>channel'\<close>).
  The content of a C object that is read before it is assigned is a parameter of the
  function that reads it (\<open>u\<close>, \<open>wild\<close>).
\<close>

subsection \<open>Constants of the rig framework\<close>

text \<open>
  Modelled from the spec: the rig framework's type definitions and constants
  (hamlib/rig.h) are external collaborators and not among the sources. The values are
  those of the framework's public header (VFOs are bit masks, error codes are
  positive and returned negated, \<open>RIG_OK\<close> is zero).
\<close>

definition RIG_OK :: int where "RIG_OK = 0"
definition RIG_EINVAL :: int where "RIG_EINVAL = 1"
definition RIG_EIO :: int where "RIG_EIO = 6"
definition RIG_EPROTO :: int where "RIG_EPROTO = 8"
definition RIG_ERJCTED :: int where "RIG_ERJCTED = 9"
definition RIG_EVFO :: int where "RIG_EVFO = 16"

definition RIG_VFO_NONE :: int where "RIG_VFO_NONE = 0"
definition RIG_VFO_A :: int where "RIG_VFO_A = 1"
definition RIG_VFO_B :: int where "RIG_VFO_B = 2"
definition RIG_VFO_VFO :: int where "RIG_VFO_VFO = 134217728"
definition RIG_VFO_MEM :: int where "RIG_VFO_MEM = 268435456"
definition RIG_VFO_CURR :: int where "RIG_VFO_CURR = 536870912"

definition RIG_SPLIT_OFF :: int where "RIG_SPLIT_OFF = 0"
definition RIG_SPLIT_ON :: int where "RIG_SPLIT_ON = 1"

definition RIG_PTT_OFF :: int where "RIG_PTT_OFF = 0"
definition RIG_PTT_ON :: int where "RIG_PTT_ON = 1"

definition RIG_DCD_OFF :: int where "RIG_DCD_OFF = 0"
definition RIG_DCD_ON :: int where "RIG_DCD_ON = 1"


definition MHz :: "int \<Rightarrow> int" where
  "MHz f = f * 1000000"

subsection \<open>Protocol definitions of the source\<close>

definition tmv71_BAND_A :: int where "tmv71_BAND_A = 0"
definition tmv71_BAND_B :: int where "tmv71_BAND_B = 1"
definition tmv71_BAND_UNKNOWN :: int where "tmv71_BAND_UNKNOWN = 2"
definition tmv71_BAND_A_CHANNEL :: int where "tmv71_BAND_A_CHANNEL = 998"
definition tmv71_BAND_B_CHANNEL :: int where "tmv71_BAND_B_CHANNEL = 999"

definition tmv71_BAND_MODE_MEMORY :: int where "tmv71_BAND_MODE_MEMORY = 1"



datatype tmv71_tone_type = tx_tone | ctcss | dcs

text \<open>The file-scope session state \<open>tmv71_state\<close>.\<close>

record tmv71_state =
  vfo_tx :: int
  vfo_rx :: int
  split_mode_active :: int

text \<open>\<open>struct tmv71_stepFreq\<close>: a frequency and the step index that supports it.\<close>

record tmv71_stepFreq =
  frequency :: int
  step :: int

text \<open>\<open>struct tmv71_me\<close>: the sixteen fields P1 .. P16 of the ME command.\<close>

record tmv71_me =
  channel :: int
  freq :: int
  step :: int
  shift :: int
  reverse :: int
  tone :: int
  ct :: int
  dcs :: int
  tone_freq :: int
  ct_freq :: int
  dcs_val :: int
  offset :: int
  mode :: int
  tx_freq :: int
  tx_step :: int
  lockout :: int

subsection \<open>Formatted output and input\<close>

text \<open>
  \<open>snprintf\<close> into a buffer of \<open>size\<close> bytes keeps at most \<open>size - 1\<close> characters.
  \<open>fmt_d\<close> is the conversion \<open>%d\<close> (and \<open>%1d\<close>, which pads nothing a number lacks),
  \<open>fmt_0d w\<close> is \<open>%0wd\<close>; \<open>%010.0f\<close> on an integral frequency prints what \<open>%010d\<close>
  prints.
\<close>

function dec :: "nat \<Rightarrow> string" where
  "dec n = (if n < 10 then [''0123456789'' ! n]
            else dec (n div 10) @ [''0123456789'' ! (n mod 10)])"
  by pat_completeness auto
termination
  by (relation "measure id") auto

declare dec.simps [simp del]

definition fmt_d :: "int \<Rightarrow> string" where
  "fmt_d i = (if i < 0 then CHR ''-'' # dec (nat (- i)) else dec (nat i))"

definition zero_pad :: "nat \<Rightarrow> string \<Rightarrow> string" where
  "zero_pad w s = replicate (w - length s) CHR ''0'' @ s"

definition fmt_0d :: "nat \<Rightarrow> int \<Rightarrow> string" where
  "fmt_0d w i = (if i < 0 then CHR ''-'' # zero_pad (w - 1) (dec (nat (- i)))
                 else zero_pad w (dec (nat i)))"

definition snprintf :: "nat \<Rightarrow> string \<Rightarrow> string" where
  "snprintf size' s = take (size' - 1) s"

text \<open>
  \<open>sscanf\<close>: the format is read into directives; the scan returns the values it
  assigned, in order, and stops at the first directive that does not match. The
  number of assigned values is the return value the source compares (an input that
  ends before the first conversion returns EOF in C, which differs from every count
  the source expects, as the count 0 does). \<open>%lf\<close> reads an integral decimal number.
\<close>

definition isspace :: "char \<Rightarrow> bool" where
  "isspace c = (c \<in> set [CHR '' '', CHR 0x09, CHR 0x0A, CHR 0x0B, CHR 0x0C, CHR 0x0D])"

definition digit_val :: "char \<Rightarrow> int option" where
  "digit_val c =
     map_of [(CHR ''0'', 0), (CHR ''1'', 1), (CHR ''2'', 2), (CHR ''3'', 3), (CHR ''4'', 4),
             (CHR ''5'', 5), (CHR ''6'', 6), (CHR ''7'', 7), (CHR ''8'', 8), (CHR ''9'', 9)] c"

fun scan_digits :: "int \<Rightarrow> string \<Rightarrow> int \<times> string" where
  "scan_digits acc [] = (acc, [])"
| "scan_digits acc (c # cs) =
     (case digit_val c of
        Some d \<Rightarrow> scan_digits (acc * 10 + d) cs
      | None \<Rightarrow> (acc, c # cs))"

definition conv_d :: "string \<Rightarrow> (int \<times> string) option" where
  "conv_d s =
     (let s1 = dropWhile isspace s;
          (neg, s2) = (case s1 of
                         [] \<Rightarrow> (False, s1)
                       | c # cs \<Rightarrow> if c = CHR ''-'' then (True, cs)
                                  else if c = CHR ''+'' then (False, cs)
                                  else (False, s1))
      in case s2 of
           [] \<Rightarrow> None
         | c # cs \<Rightarrow>
            (case digit_val c of
               None \<Rightarrow> None
             | Some d \<Rightarrow> (case scan_digits d cs of
                            (v, rest) \<Rightarrow> Some (if neg then - v else v, rest))))"

datatype directive = Lit char | Space | Conv_d | Skip_d | Conv_lf

fun directives :: "string \<Rightarrow> directive list" where
  "directives [] = []"
| "directives (c # cs) =
    (if c = CHR ''%'' then
       (case cs of
          [] \<Rightarrow> []
        | x # xs \<Rightarrow>
           if x = CHR ''d'' then Conv_d # directives xs
           else (case xs of
                   [] \<Rightarrow> []
                 | y # ys \<Rightarrow>
                    if x = CHR ''*'' \<and> y = CHR ''d'' then Skip_d # directives ys
                    else if x = CHR ''l'' \<and> y = CHR ''f'' then Conv_lf # directives ys
                    else []))
     else if isspace c then Space # directives cs
     else Lit c # directives cs)"

fun scan :: "directive list \<Rightarrow> string \<Rightarrow> int list" where
  "scan [] s = []"
| "scan (Lit c # ds) s =
     (case s of [] \<Rightarrow> [] | x # xs \<Rightarrow> if x = c then scan ds xs else [])"
| "scan (Space # ds) s = scan ds (dropWhile isspace s)"
| "scan (Conv_d # ds) s =
     (case conv_d s of None \<Rightarrow> [] | Some (v, rest) \<Rightarrow> v # scan ds rest)"
| "scan (Conv_lf # ds) s =
     (case conv_d s of None \<Rightarrow> [] | Some (v, rest) \<Rightarrow> v # scan ds rest)"
| "scan (Skip_d # ds) s =
     (case conv_d s of None \<Rightarrow> [] | Some (v, rest) \<Rightarrow> scan ds rest)"

definition sscanf :: "string \<Rightarrow> string \<Rightarrow> int list" where
  "sscanf buf format = scan (directives format) buf"

subsection \<open>The transport\<close>

text \<open>
  Modelled from the spec: \<open>kenwood_transaction\<close> is the external transport adapter,
  one operation \<open>exchange(command) \<rightarrow> response | error\<close>. The handle carries the
  adapter as a parameter: \<open>exchange\<close> maps the state of the link and the radio and a
  command to a return code, the reply left in the buffer and the next state. \<open>wire\<close>
  records the commands written to the link, oldest first.
\<close>

record 'r RIG =
  exchange :: "'r \<Rightarrow> string \<Rightarrow> int \<times> string \<times> 'r"
  radio :: 'r
  wire :: "string list"

definition kenwood_transaction :: "'r RIG \<Rightarrow> string \<Rightarrow> (int \<times> string) \<times> 'r RIG" where
  "kenwood_transaction rig cmd =
     (case exchange rig (radio rig) cmd of
        (retval, buf, r') \<Rightarrow> ((retval, buf), rig\<lparr>radio := r', wire := wire rig @ [cmd]\<rparr>))"

subsection \<open>Value transformations\<close>

definition tmv71_open :: "tmv71_state \<Rightarrow> 'r RIG \<Rightarrow> int \<times> tmv71_state \<times> 'r RIG" where
  "tmv71_open st rig =
     (let st = st\<lparr>vfo_tx := RIG_VFO_A\<rparr>;
          st = st\<lparr>vfo_tx := RIG_VFO_A\<rparr>
      in (0, st, rig))"

definition tmv71_transform_band_to_vfo :: "int \<Rightarrow> int" where
  "tmv71_transform_band_to_vfo band = (if band = tmv71_BAND_A then RIG_VFO_A else RIG_VFO_B)"

definition tmv71_transform_vfo_to_band :: "int \<Rightarrow> int" where
  "tmv71_transform_vfo_to_band vfo =
     (if vfo = RIG_VFO_A then tmv71_BAND_A
      else if vfo = RIG_VFO_B then tmv71_BAND_B
      else tmv71_BAND_UNKNOWN)"



text \<open>
  \<open>tmv71_get_update_me\<close> assigns \<open>-1\<close> to fifteen fields and leaves \<open>channel\<close>
  unassigned: \<open>u\<close> is what the returned struct holds there.
\<close>

definition tmv71_get_update_me :: "int \<Rightarrow> tmv71_me" where
  "tmv71_get_update_me u =
     \<lparr> channel = u, freq = - 1, step = - 1, shift = - 1, reverse = - 1, tone = - 1,
       ct = - 1, dcs = - 1, tone_freq = - 1, ct_freq = - 1, dcs_val = - 1, offset = - 1,
       mode = - 1, tx_freq = - 1, tx_step = - 1, lockout = - 1 \<rparr>"

subsection \<open>Protocol operations\<close>

text \<open>
  A pull returns \<open>Inl retval\<close> where the source returns a code other than \<open>RIG_OK\<close>
  (no caller reads the out-parameters then) and \<open>Inr\<close> the parsed values otherwise.
\<close>

definition rig_pull_me :: "'r RIG \<Rightarrow> int \<Rightarrow> (int + tmv71_me) \<times> 'r RIG" where
  "rig_pull_me rig ch =
     (let cmdbuf = snprintf 8 (''ME '' @ fmt_0d 3 ch);
          ((retval, buf), rig1) = kenwood_transaction rig cmdbuf
      in if retval \<noteq> RIG_OK then (Inl retval, rig1)
         else
           (let vs = sscanf buf ''ME %d,%lf,%d,%d,%d,%d,%d,%d,%d,%d,%d,%d,%d,%lf,%d,%d''
            in if int (length vs) \<noteq> 16 then (Inl (- RIG_ERJCTED), rig1)
               else (Inr \<lparr> channel = vs ! 0, freq = vs ! 1, step = vs ! 2, shift = vs ! 3,
                           reverse = vs ! 4, tone = vs ! 5, ct = vs ! 6, dcs = vs ! 7,
                           tone_freq = vs ! 8, ct_freq = vs ! 9, dcs_val = vs ! 10,
                           offset = vs ! 11, mode = vs ! 12, tx_freq = vs ! 13,
                           tx_step = vs ! 14, lockout = vs ! 15 \<rparr>, rig1)))"

text \<open>\<open>me_command\<close> is what the format of \<open>rig_push_me\<close> prints for a record.\<close>

definition me_command :: "tmv71_me \<Rightarrow> string" where
  "me_command me_struct =
     ''ME '' @ fmt_0d 3 (channel me_struct) @ '','' @ fmt_0d 10 (freq me_struct) @ '','' @
     fmt_d (step me_struct) @ '','' @ fmt_d (shift me_struct) @ '','' @
     fmt_d (reverse me_struct) @ '','' @ fmt_d (tone me_struct) @ '','' @
     fmt_d (ct me_struct) @ '','' @ fmt_d (dcs me_struct) @ '','' @
     fmt_0d 2 (tone_freq me_struct) @ '','' @ fmt_0d 2 (ct_freq me_struct) @ '','' @
     fmt_0d 3 (dcs_val me_struct) @ '','' @ fmt_0d 8 (offset me_struct) @ '','' @
     fmt_d (mode me_struct) @ '','' @ fmt_0d 10 (tx_freq me_struct) @ '','' @
     fmt_d (tx_step me_struct) @ '','' @ fmt_d (lockout me_struct)"

definition rig_push_me :: "'r RIG \<Rightarrow> tmv71_me \<Rightarrow> int \<times> 'r RIG" where
  "rig_push_me rig me_struct =
     (let cmdbuf = snprintf 80 (me_command me_struct);
          ((retval, buf), rig1) = kenwood_transaction rig cmdbuf
      in (retval, rig1))"

definition rig_push_vm :: "'r RIG \<Rightarrow> int \<Rightarrow> int \<Rightarrow> int \<times> 'r RIG" where
  "rig_push_vm rig vfo mode' =
     (let band = tmv71_transform_vfo_to_band vfo;
          cmdbuf = snprintf 80 (''VM '' @ fmt_d band @ '','' @ fmt_d mode');
          ((retval, buf), rig1) = kenwood_transaction rig cmdbuf
      in (retval, rig1))"

definition rig_pull_bc :: "'r RIG \<Rightarrow> (int + int \<times> int) \<times> 'r RIG" where
  "rig_pull_bc rig =
     (let cmdbuf = snprintf 80 ''BC'';
          ((retval, buf), rig1) = kenwood_transaction rig cmdbuf
      in if retval \<noteq> RIG_OK then (Inl retval, rig1)
         else
           (let vs = sscanf buf ''BC %d,%d''
            in if int (length vs) \<noteq> 2 then (Inl (- RIG_ERJCTED), rig1)
               else (Inr (tmv71_transform_band_to_vfo (vs ! 0),
                          tmv71_transform_band_to_vfo (vs ! 1)), rig1)))"

definition rig_push_bc :: "'r RIG \<Rightarrow> int \<Rightarrow> int \<Rightarrow> int \<times> 'r RIG" where
  "rig_push_bc rig ctrl ptt =
     (let band_ctrl = tmv71_transform_vfo_to_band ctrl;
          band_ptt = tmv71_transform_vfo_to_band ptt;
          cmdbuf = snprintf 80 (''BC '' @ fmt_d band_ctrl @ '','' @ fmt_d band_ptt);
          ((retval, buf), rig1) = kenwood_transaction rig cmdbuf
      in (retval, rig1))"

definition rig_push_mr :: "'r RIG \<Rightarrow> int \<Rightarrow> int \<Rightarrow> int \<times> 'r RIG" where
  "rig_push_mr rig vfo channel' =
     (let band = tmv71_transform_vfo_to_band vfo;
          cmdbuf = snprintf 80 (''MR '' @ fmt_d band @ '','' @ fmt_d channel');
          ((retval, buf), rig1) = kenwood_transaction rig cmdbuf
      in (retval, rig1))"

definition rig_push_tx :: "'r RIG \<Rightarrow> int \<times> 'r RIG" where
  "rig_push_tx rig =
     (let cmdbuf = snprintf 80 ''TX'';
          ((retval, buf), rig1) = kenwood_transaction rig cmdbuf
      in (retval, rig1))"

definition rig_push_rx :: "'r RIG \<Rightarrow> int \<times> 'r RIG" where
  "rig_push_rx rig =
     (let cmdbuf = snprintf 80 ''RX'';
          ((retval, buf), rig1) = kenwood_transaction rig cmdbuf
      in (retval, rig1))"

text \<open>
  \<open>rig_pull_by\<close> ignores the count \<open>sscanf\<close> returns: when nothing was assigned,
  \<open>dcdVal\<close> holds what it held before (\<open>u\<close>). The out-parameter \<open>dcd\<close> is \<open>None\<close>
  where the source does not assign it.
\<close>

definition rig_pull_by :: "int \<Rightarrow> 'r RIG \<Rightarrow> int \<Rightarrow> (int \<times> int option) \<times> 'r RIG" where
  "rig_pull_by u rig vfo =
     (let cmdbuf = snprintf 80 (''BY '' @ fmt_d vfo);
          ((retval, buf), rig1) = kenwood_transaction rig cmdbuf
      in if retval \<noteq> RIG_OK then ((retval, None), rig1)
         else
           (let dcdVal = (case sscanf buf ''BY %d'' of [] \<Rightarrow> u | v # vs \<Rightarrow> v)
            in if dcdVal = 0 then ((RIG_OK, Some RIG_DCD_OFF), rig1)
               else if dcdVal = 1 then ((RIG_OK, Some RIG_DCD_ON), rig1)
               else ((- RIG_ERJCTED, None), rig1)))"

subsection \<open>The virtual-VFO core\<close>

text \<open>
  \<open>tmv71_vfo_to_channel\<close> always returns \<open>RIG_OK\<close>; the model returns the channel it
  writes. For a VFO other than A and B it asks the radio for the control band and calls
  itself with the VFO of that band, which is A or B.
\<close>

function tmv71_vfo_to_channel :: "'r RIG \<Rightarrow> int \<Rightarrow> int \<times> 'r RIG" where
  "tmv71_vfo_to_channel rig vfo =
     (if vfo = RIG_VFO_A then (tmv71_BAND_A_CHANNEL, rig)
      else if vfo = RIG_VFO_B then (tmv71_BAND_B_CHANNEL, rig)
      else
        (case rig_pull_bc rig of
           (Inl retval, rig1) \<Rightarrow> (tmv71_BAND_A_CHANNEL, rig1)
         | (Inr (ctrl, ptt), rig1) \<Rightarrow> tmv71_vfo_to_channel rig1 ctrl))"
  by pat_completeness auto
termination
proof (relation "measure (\<lambda>(rig, vfo). if vfo = RIG_VFO_A \<or> vfo = RIG_VFO_B then 0 else 1)")
  show "wf (measure (\<lambda>(rig :: 'r RIG, vfo). if vfo = RIG_VFO_A \<or> vfo = RIG_VFO_B then 0 else (1::nat)))"
    by simp
next
  fix rig :: "'r RIG" and vfo x1 rig1 x2 ctrl ptt
  assume "vfo \<noteq> RIG_VFO_A" "vfo \<noteq> RIG_VFO_B"
    and "(x1, rig1) = rig_pull_bc rig" "x1 = Inr x2" "(ctrl, ptt) = x2"
  then have "ctrl = RIG_VFO_A \<or> ctrl = RIG_VFO_B"
    by (auto simp: rig_pull_bc_def tmv71_transform_band_to_vfo_def Let_def
             split: prod.splits if_splits)
  with \<open>vfo \<noteq> RIG_VFO_A\<close> \<open>vfo \<noteq> RIG_VFO_B\<close>
  show "((rig1, ctrl), rig, vfo)
          \<in> measure (\<lambda>(rig, vfo). if vfo = RIG_VFO_A \<or> vfo = RIG_VFO_B then 0 else 1)"
    by auto
qed

declare tmv71_vfo_to_channel.simps [simp del]

text \<open>The read-modify-write of one memory channel.\<close>

definition tmv71_update_memory_channel :: "'r RIG \<Rightarrow> int \<Rightarrow> tmv71_me \<Rightarrow> int \<times> 'r RIG" where
  "tmv71_update_memory_channel rig channel' me_new =
     (case rig_pull_me rig channel' of
        (Inl retval, rig1) \<Rightarrow> (retval, rig1)
      | (Inr me_current, rig1) \<Rightarrow>
         (let me_current = (if freq me_new \<noteq> - 1 then me_current\<lparr>freq := freq me_new\<rparr> else me_current);
              me_current = (if step me_new \<noteq> - 1 then me_current\<lparr>step := step me_new\<rparr> else me_current);
              me_current = (if shift me_new \<noteq> - 1 then me_current\<lparr>shift := shift me_new\<rparr> else me_current);
              me_current = (if reverse me_new \<noteq> - 1 then me_current\<lparr>reverse := reverse me_new\<rparr> else me_current);
              me_current = (if tone me_new \<noteq> - 1 then me_current\<lparr>tone := tone me_new\<rparr> else me_current);
              me_current = (if ct me_new \<noteq> - 1 then me_current\<lparr>ct := ct me_new\<rparr> else me_current);
              me_current = (if dcs me_new \<noteq> - 1 then me_current\<lparr>dcs := dcs me_new\<rparr> else me_current);
              me_current = (if tone_freq me_new \<noteq> - 1 then me_current\<lparr>tone_freq := tone_freq me_new\<rparr> else me_current);
              me_current = (if ct_freq me_new \<noteq> - 1 then me_current\<lparr>ct_freq := ct_freq me_new\<rparr> else me_current);
              me_current = (if dcs_val me_new \<noteq> - 1 then me_current\<lparr>dcs_val := dcs_val me_new\<rparr> else me_current);
              me_current = (if offset me_new \<noteq> - 1 then me_current\<lparr>offset := offset me_new\<rparr> else me_current);
              me_current = (if mode me_new \<noteq> - 1 then me_current\<lparr>mode := mode me_new\<rparr> else me_current);
              me_current = (if tx_freq me_new \<noteq> - 1 then me_current\<lparr>tx_freq := tx_freq me_new\<rparr> else me_current);
              me_current = (if tx_step me_new \<noteq> - 1 then me_current\<lparr>tx_step := tx_step me_new\<rparr> else me_current);
              me_current = (if lockout me_new \<noteq> - 1 then me_current\<lparr>lockout := lockout me_new\<rparr> else me_current)
          in rig_push_me rig1 me_current))"

text \<open>
  The frequency snap. \<open>freq / 5000\<close> divides two C integers (\<open>sdiv\<close> truncates towards
  zero, as C does), so the \<open>round\<close> around it receives an integer and returns it.
\<close>

definition tmv71_resolve_supported_freq :: "int \<Rightarrow> tmv71_stepFreq" where
  "tmv71_resolve_supported_freq freq' =
     (let freq5 = (freq' sdiv 5000) * 5000;
          freq625 = (freq' sdiv 6250) * 6250;
          (step', resolvedFreq) =
             (if \<bar>freq5 - freq'\<bar> < \<bar>freq625 - freq'\<bar> then (0, freq5) else (1, freq625))
      in \<lparr> frequency = (if resolvedFreq \<ge> MHz 470 then (resolvedFreq sdiv 10000) * 10000
                         else resolvedFreq),
           tmv71_stepFreq.step = (if resolvedFreq \<ge> MHz 470 then 4 else step') \<rparr>)"


subsection \<open>Public operations\<close>







definition tmv71_set_ptt :: "'r RIG \<Rightarrow> int \<Rightarrow> int \<Rightarrow> int \<times> 'r RIG" where
  "tmv71_set_ptt rig vfo ptt =
     (let (retval, rig1) = (if ptt = RIG_PTT_ON then rig_push_tx rig else rig_push_rx rig)
      in (RIG_OK, rig1))"




text \<open>
  \<open>tmv71_find_tonelist\<close> assigns the list to its own parameter and changes nothing the
  caller sees, so the \<open>tone_list\<close> of its callers stays unassigned. It is declared a
  \<open>tone_t\<close>, so \<open>sizeof(tone_list) / sizeof(int)\<close> is 1, and \<open>tone_list[&cI]\<close> reads an
  \<open>int\<close> at an address made of the unassigned value: \<open>wild\<close> is the value read.
\<close>

definition tmv71_tone_to_code :: "int \<Rightarrow> tmv71_tone_type \<Rightarrow> int \<Rightarrow> int \<times> int" where
  "tmv71_tone_to_code wild type' tone' =
     (let code = - 1;
          length' = (1::int);
          code = (if 0 < length' \<and> wild = tone' then 0 else code)
      in if code = - 1 then (- RIG_EINVAL, code) else (0, code))"

text \<open>\<open>code\<close> is a \<open>tone_t\<close> (unsigned), and the comparison converts \<open>length\<close> to it;
  \<open>tone0\<close> is the content of the out-parameter before the call.\<close>

definition tmv71_code_to_tone :: "int \<Rightarrow> tmv71_tone_type \<Rightarrow> int \<Rightarrow> int \<Rightarrow> int \<times> int" where
  "tmv71_code_to_tone wild type' code tone0 =
     (let length' = (1::int)
      in if length' \<ge> code mod 4294967296 then (- RIG_EINVAL, tone0)
         else (0, wild))"

definition tmv71_do_get_tone ::
    "int \<Rightarrow> 'r RIG \<Rightarrow> int \<Rightarrow> tmv71_tone_type \<Rightarrow> int \<Rightarrow> (int \<times> int) \<times> 'r RIG" where
  "tmv71_do_get_tone wild rig vfo type' tone0 =
     (let (channel, rig1) = tmv71_vfo_to_channel rig vfo
      in case rig_pull_me rig1 channel of
           (Inl retval, rig2) \<Rightarrow> ((retval, tone0), rig2)
         | (Inr me_struct, rig2) \<Rightarrow>
            (let (enabled, code, tone_type) =
                   (case type' of
                      tx_tone \<Rightarrow> (tone me_struct, tone_freq me_struct, ctcss)
                    | ctcss \<Rightarrow> (ct me_struct, ct_freq me_struct, ctcss)
                    | tmv71_tone_type.dcs \<Rightarrow> (dcs me_struct, dcs_val me_struct, tmv71_tone_type.dcs))
             in if enabled = 0 then ((0, tone0), rig2)
                else (let (r, tone1) = tmv71_code_to_tone wild tone_type code tone0
                      in ((RIG_OK, tone1), rig2))))"

definition tmv71_do_set_tone ::
    "int \<Rightarrow> int \<Rightarrow> 'r RIG \<Rightarrow> int \<Rightarrow> tmv71_tone_type \<Rightarrow> int \<Rightarrow> int \<times> 'r RIG" where
  "tmv71_do_set_tone u wild rig vfo type' tone' =
     (let me_struct = tmv71_get_update_me u;
          me_struct = me_struct\<lparr>tone := 0\<rparr>;
          me_struct = me_struct\<lparr>ct := 0\<rparr>;
          me_struct = me_struct\<lparr>dcs := 0\<rparr>;
          (me_struct, tone_code, tone_type) =
             (case type' of
                tx_tone \<Rightarrow> (me_struct\<lparr>tone := 1\<rparr>, tone_freq me_struct, ctcss)
              | ctcss \<Rightarrow> (me_struct\<lparr>ct := 1\<rparr>, ct_freq me_struct, ctcss)
              | tmv71_tone_type.dcs \<Rightarrow> (me_struct\<lparr>dcs := 1\<rparr>, dcs_val me_struct, tmv71_tone_type.dcs));
          (r, tone_code) = tmv71_tone_to_code wild tone_type tone';
          (channel, rig1) = tmv71_vfo_to_channel rig vfo
      in tmv71_update_memory_channel rig1 channel me_struct)"

definition tmv71_set_ctcss_tone :: "int \<Rightarrow> int \<Rightarrow> 'r RIG \<Rightarrow> int \<Rightarrow> int \<Rightarrow> int \<times> 'r RIG" where
  "tmv71_set_ctcss_tone u wild rig vfo tone' = tmv71_do_set_tone u wild rig vfo tx_tone tone'"

definition tmv71_get_ctcss_tone :: "int \<Rightarrow> 'r RIG \<Rightarrow> int \<Rightarrow> int \<Rightarrow> (int \<times> int) \<times> 'r RIG" where
  "tmv71_get_ctcss_tone wild rig vfo tone0 =
     (let ((r, tone1), rig1) = tmv71_do_get_tone wild rig vfo tx_tone tone0
      in ((0, tone1), rig1))"


definition tmv71_get_ctcss_sql :: "int \<Rightarrow> 'r RIG \<Rightarrow> int \<Rightarrow> int \<Rightarrow> (int \<times> int) \<times> 'r RIG" where
  "tmv71_get_ctcss_sql wild rig vfo tone0 =
     (let ((r, tone1), rig1) = tmv71_do_get_tone wild rig vfo ctcss tone0
      in ((0, tone1), rig1))"


definition tmv71_get_dcs_sql :: "int \<Rightarrow> 'r RIG \<Rightarrow> int \<Rightarrow> int \<Rightarrow> (int \<times> int) \<times> 'r RIG" where
  "tmv71_get_dcs_sql wild rig vfo tone0 =
     (let ((r, tone1), rig1) = tmv71_do_get_tone wild rig vfo tmv71_tone_type.dcs tone0
      in ((0, tone1), rig1))"

text \<open>\<open>clean_memory_channel\<close> is the record \<open>tmv71_create_clean_memory_channel\<close> fills in
  field by field before it pushes it.\<close>

definition clean_memory_channel :: "int \<Rightarrow> tmv71_me" where
  "clean_memory_channel channel' =
     \<lparr> channel = channel', freq = 146500000, step = 0, shift = 0, reverse = 0, tone = 0,
       ct = 0, dcs = 0, tone_freq = 0, ct_freq = 0, dcs_val = 0, offset = 0, mode = 0,
       tx_freq = 0, tx_step = 0, lockout = 0 \<rparr>"

definition tmv71_create_clean_memory_channel :: "'r RIG \<Rightarrow> int \<Rightarrow> int \<times> 'r RIG" where
  "tmv71_create_clean_memory_channel rig channel' =
     (let me_struct = clean_memory_channel channel';
          (retval, rig1) = rig_push_me rig me_struct
      in if retval \<noteq> RIG_OK then (retval, rig1) else (retval, rig1))"

definition tmv71_get_current_vfo :: "'r RIG \<Rightarrow> (int + int \<times> int) \<times> 'r RIG" where
  "tmv71_get_current_vfo rig =
     (case rig_pull_bc rig of
        (Inl retval, rig1) \<Rightarrow> (Inl retval, rig1)
      | (Inr (ctrl, ptt), rig1) \<Rightarrow> (Inr (ctrl, ptt), rig1))"

text \<open>The part of \<open>tmv71_set_vfo\<close> after the \<open>switch\<close>: \<open>ctrl\<close> and \<open>channel\<close> are what the
  switch left in the two locals.\<close>

definition tmv71_set_vfo_select :: "'r RIG \<Rightarrow> int \<Rightarrow> int \<Rightarrow> int \<times> 'r RIG" where
  "tmv71_set_vfo_select rig ctrl channel' =
     (case rig_push_vm rig ctrl tmv71_BAND_MODE_MEMORY of (retval, rig1) \<Rightarrow>
      if retval \<noteq> RIG_OK then (retval, rig1)
      else
        (case (if channel' > 0 then
                 (case rig_pull_me rig1 channel' of
                    (Inl retval, rig2) \<Rightarrow>
                      (case tmv71_create_clean_memory_channel rig2 channel' of (retval, rig3) \<Rightarrow>
                       if retval \<noteq> RIG_OK then (retval, rig3)
                       else rig_push_mr rig3 ctrl channel')
                  | (Inr me_struct, rig2) \<Rightarrow> rig_push_mr rig2 ctrl channel')
               else (RIG_OK, rig1)) of (retval, rig4) \<Rightarrow>
         if retval \<noteq> RIG_OK then (retval, rig4)
         else
           (case rig_push_bc rig4 ctrl ctrl of (retval, rig5) \<Rightarrow>
            if retval \<noteq> RIG_OK then (retval, rig5) else (RIG_OK, rig5))))"

definition tmv71_set_vfo :: "'r RIG \<Rightarrow> int \<Rightarrow> int \<times> 'r RIG" where
  "tmv71_set_vfo rig vfo =
     (if vfo = RIG_VFO_A \<or> vfo = RIG_VFO_VFO then tmv71_set_vfo_select rig vfo tmv71_BAND_A_CHANNEL
      else if vfo = RIG_VFO_B then tmv71_set_vfo_select rig vfo tmv71_BAND_B_CHANNEL
      else if vfo = RIG_VFO_MEM then
        (case tmv71_get_current_vfo rig of
           (Inl retval, rig1) \<Rightarrow> (retval, rig1)
         | (Inr (ctrl, ptt), rig1) \<Rightarrow> tmv71_set_vfo_select rig1 ctrl 0)
      else (- RIG_EVFO, rig))"

definition tmv71_set_split_vfo ::
    "tmv71_state \<Rightarrow> 'r RIG \<Rightarrow> int \<Rightarrow> int \<Rightarrow> int \<Rightarrow> int \<times> tmv71_state \<times> 'r RIG" where
  "tmv71_set_split_vfo st rig vfo split txvfo =
     (case rig_push_bc rig txvfo txvfo of (retval, rig1) \<Rightarrow>
      if retval \<noteq> RIG_OK then (retval, st, rig1)
      else if split = RIG_SPLIT_ON then
        (let st = st\<lparr>vfo_tx := txvfo\<rparr>;
             st = st\<lparr>vfo_rx := (if txvfo = RIG_VFO_A then RIG_VFO_B else RIG_VFO_A)\<rparr>;
             st = st\<lparr>split_mode_active := RIG_SPLIT_ON\<rparr>
         in (RIG_OK, st, rig1))
      else (RIG_OK, st\<lparr>split_mode_active := RIG_SPLIT_OFF\<rparr>, rig1))"

text \<open>\<open>split0\<close> and \<open>txvfo0\<close> are what the caller's two variables hold before the call;
  the result carries what they hold on return.\<close>

definition tmv71_get_split_vfo ::
    "tmv71_state \<Rightarrow> 'r RIG \<Rightarrow> int \<Rightarrow> int \<Rightarrow> int \<Rightarrow> (int \<times> int \<times> int) \<times> 'r RIG" where
  "tmv71_get_split_vfo st rig vfo split0 txvfo0 =
     (let split = split0;
          txvfo = vfo_tx st
      in case tmv71_get_current_vfo rig of
           (Inl retval, rig1) \<Rightarrow> ((retval, split, txvfo), rig1)
         | (Inr (band, ptt), rig1) \<Rightarrow> ((RIG_OK, split, txvfo), rig1))"

definition tmv71_get_dcd :: "int \<Rightarrow> 'r RIG \<Rightarrow> int \<Rightarrow> (int \<times> int option) \<times> 'r RIG" where
  "tmv71_get_dcd u rig vfo = rig_pull_by u rig vfo"

subsection \<open>The partial-update discipline\<close>

text \<open>
  The discipline as the specification words it, to be compared with
  \<open>tmv71_update_memory_channel\<close>: \<open>overlay\<close> takes from the partial record the fields
  that are not the sentinel \<open>-1\<close> and all other fields, and the channel index, from
  the record pulled; \<open>read_modify_write\<close> pulls, overlays and pushes, and pushes nothing
  when the pull fails; \<open>rmw_on_vfo\<close> does so on the channel of a VFO.
\<close>

definition overlay :: "tmv71_me \<Rightarrow> tmv71_me \<Rightarrow> tmv71_me" where
  "overlay me_current me_new =
     \<lparr> channel = channel me_current,
       freq = (if freq me_new \<noteq> - 1 then freq me_new else freq me_current),
       step = (if step me_new \<noteq> - 1 then step me_new else step me_current),
       shift = (if shift me_new \<noteq> - 1 then shift me_new else shift me_current),
       reverse = (if reverse me_new \<noteq> - 1 then reverse me_new else reverse me_current),
       tone = (if tone me_new \<noteq> - 1 then tone me_new else tone me_current),
       ct = (if ct me_new \<noteq> - 1 then ct me_new else ct me_current),
       dcs = (if dcs me_new \<noteq> - 1 then dcs me_new else dcs me_current),
       tone_freq = (if tone_freq me_new \<noteq> - 1 then tone_freq me_new else tone_freq me_current),
       ct_freq = (if ct_freq me_new \<noteq> - 1 then ct_freq me_new else ct_freq me_current),
       dcs_val = (if dcs_val me_new \<noteq> - 1 then dcs_val me_new else dcs_val me_current),
       offset = (if offset me_new \<noteq> - 1 then offset me_new else offset me_current),
       mode = (if mode me_new \<noteq> - 1 then mode me_new else mode me_current),
       tx_freq = (if tx_freq me_new \<noteq> - 1 then tx_freq me_new else tx_freq me_current),
       tx_step = (if tx_step me_new \<noteq> - 1 then tx_step me_new else tx_step me_current),
       lockout = (if lockout me_new \<noteq> - 1 then lockout me_new else lockout me_current) \<rparr>"

definition read_modify_write :: "'r RIG \<Rightarrow> int \<Rightarrow> tmv71_me \<Rightarrow> int \<times> 'r RIG" where
  "read_modify_write rig ch me_new =
     (case rig_pull_me rig ch of
        (Inl e, rig1) \<Rightarrow> (e, rig1)
      | (Inr me_current, rig1) \<Rightarrow> rig_push_me rig1 (overlay me_current me_new))"

definition rmw_on_vfo :: "'r RIG \<Rightarrow> int \<Rightarrow> tmv71_me \<Rightarrow> int \<times> 'r RIG" where
  "rmw_on_vfo rig vfo me_new =
     (case tmv71_vfo_to_channel rig vfo of (ch, rig1) \<Rightarrow> read_modify_write rig1 ch me_new)"

subsection \<open>Channel selection\<close>


subsection \<open>The snap as the specification words it\<close>

text \<open>
  The nearest multiple of a grid step (a frequency half-way between two multiples goes
  up), and the snap of the specification: the nearer of the two candidates, a tie going
  to the 5 kHz candidate, and the 10 kHz grid from 470 MHz on.
\<close>

definition nearest_multiple :: "int \<Rightarrow> int \<Rightarrow> int" where
  "nearest_multiple m f = ((2 * f + m) div (2 * m)) * m"

definition snap_claimed :: "int \<Rightarrow> tmv71_stepFreq" where
  "snap_claimed f =
     (let c5 = nearest_multiple 5000 f;
          c625 = nearest_multiple 6250 f;
          (s, r) = (if \<bar>c625 - f\<bar> < \<bar>c5 - f\<bar> then (1, c625) else (0, c5))
      in if r \<ge> MHz 470 then \<lparr> frequency = nearest_multiple 10000 f, tmv71_stepFreq.step = 4 \<rparr>
         else \<lparr> frequency = r, tmv71_stepFreq.step = s \<rparr>)"

subsection \<open>A scripted link\<close>

text \<open>
  A transport for concrete runs: the link has written \<open>sent\<close> and will answer the next
  commands with \<open>answers\<close>, one answer (return code and reply) for each command; when
  the answers are used up every exchange fails with an I/O error.
\<close>

definition scripted :: "string list \<Rightarrow> (int \<times> string) list \<Rightarrow> (int \<times> string) list RIG" where
  "scripted sent answers =
     \<lparr> exchange = (\<lambda>r cmd. case r of
                               [] \<Rightarrow> (- RIG_EIO, [], [])
                             | (retval, reply) # rest \<Rightarrow> (retval, reply, rest)),
       radio = answers, wire = sent \<rparr>"

section \<open>Frequency grid snapping\<close>

text \<open>Truncation of \<open>f\<close> to a multiple of \<open>m\<close>, as \<open>(f / m) * m\<close> computes it in C, and the
  choice between the two candidates, before the 470 MHz threshold is applied.\<close>

definition trunc_to :: "int \<Rightarrow> int \<Rightarrow> int" where
  "trunc_to m f = (f sdiv m) * m"

definition grid_choice :: "int \<Rightarrow> int \<times> int" where
  "grid_choice freq' = (if \<bar>trunc_to 5000 freq' - freq'\<bar> < \<bar>trunc_to 6250 freq' - freq'\<bar>
               then (0, trunc_to 5000 freq') else (1, trunc_to 6250 freq'))"

lemma sdiv_pos: "0 \<le> f \<Longrightarrow> 0 < m \<Longrightarrow> (f::int) sdiv m = f div m"
  by (simp add: signed_divide_int_def sgn_if)

lemma sdiv_neg: "f < 0 \<Longrightarrow> 0 < m \<Longrightarrow> (f::int) sdiv m = - ((- f) div m)"
  by (simp add: signed_divide_int_def sgn_if)

lemma trunc_to_mult: "0 < m \<Longrightarrow> trunc_to m (k * m) = k * m"
proof (cases "0 \<le> k")
  case True
  assume m: "0 < m"
  with True have "0 \<le> k * m" by simp
  with m show ?thesis by (simp add: trunc_to_def sdiv_pos)
next
  case False
  assume m: "0 < m"
  with False have neg: "k * m < 0" by (simp add: mult_less_0_iff)
  have "- (k * m) = (- k) * m" by simp
  then have "(- (k * m)) div m = - k" using m by (metis less_irrefl nonzero_mult_div_cancel_right)
  with neg m show ?thesis by (simp add: trunc_to_def sdiv_neg)
qed

lemma trunc_to_dvd: "m dvd trunc_to m f"
  by (simp add: trunc_to_def)

lemma trunc_to_fix: "0 < m \<Longrightarrow> m dvd f \<Longrightarrow> trunc_to m f = f"
  using trunc_to_mult[of m "f div m"] by auto

lemma trunc_to_idem: "0 < m \<Longrightarrow> trunc_to m (trunc_to m f) = trunc_to m f"
  by (rule trunc_to_fix) (simp_all add: trunc_to_dvd)

lemma trunc_to_pos: "0 \<le> f \<Longrightarrow> 0 < m \<Longrightarrow> trunc_to m f = f - f mod m"
  by (simp add: trunc_to_def sdiv_pos minus_mod_eq_div_mult)

lemma trunc_to_neg: "f < 0 \<Longrightarrow> 0 < m \<Longrightarrow> trunc_to m f = f + (- f) mod m"
  using minus_mod_eq_div_mult[of "-f" m] by (simp add: trunc_to_def sdiv_neg)

lemma trunc_to_err: "0 < m \<Longrightarrow> \<bar>trunc_to m f - f\<bar> = \<bar>f\<bar> mod m"
  by (cases "0 \<le> f") (simp_all add: trunc_to_pos trunc_to_neg)

lemma trunc_to_err_zero: "0 < m \<Longrightarrow> (\<bar>trunc_to m f - f\<bar> = 0) = (m dvd f)"
  by (simp add: trunc_to_err dvd_eq_mod_eq_0 [symmetric] del: abs_eq_0)

lemma on_both_grids_tie:
  assumes a: "(0::int) \<le> a" and d: "6250 dvd (a - a mod 5000)"
  shows "a mod 6250 = a mod 5000"
proof -
  from d obtain k where k: "a - a mod 5000 = 6250 * k" by (auto simp: dvd_def)
  have b: "0 \<le> a mod 5000" "a mod 5000 < 6250"
    using pos_mod_bound[of 5000 a] by simp_all
  from k have "a = a mod 5000 + 6250 * k" by simp
  then have "a mod 6250 = (a mod 5000 + 6250 * k) mod 6250" by simp
  also have "\<dots> = (a mod 5000) mod 6250" by simp
  also have "\<dots> = a mod 5000" using b by (simp add: mod_pos_pos_trivial)
  finally show ?thesis .
qed

lemma err5_less_not_625:
  assumes "\<bar>trunc_to 5000 f - f\<bar> < \<bar>trunc_to 6250 f - f\<bar>"
  shows "\<not> 6250 dvd trunc_to 5000 f"
proof
  assume d: "6250 dvd trunc_to 5000 f"
  have e5: "\<bar>trunc_to 5000 f - f\<bar> = \<bar>f\<bar> mod 5000" by (simp add: trunc_to_err)
  have e6: "\<bar>trunc_to 6250 f - f\<bar> = \<bar>f\<bar> mod 6250" by (simp add: trunc_to_err)
  have "6250 dvd (\<bar>f\<bar> - \<bar>f\<bar> mod 5000)"
  proof (cases "0 \<le> f")
    case True
    with d show ?thesis by (simp add: trunc_to_pos)
  next
    case False
    then have "trunc_to 5000 f = - (\<bar>f\<bar> - \<bar>f\<bar> mod 5000)" by (simp add: trunc_to_neg)
    with d show ?thesis by (simp only: dvd_minus_iff)
  qed
  then have "\<bar>f\<bar> mod 6250 = \<bar>f\<bar> mod 5000" by (intro on_both_grids_tie) simp_all
  with assms e5 e6 show False by simp
qed

lemma grid_choice_fix: "grid_choice (snd (grid_choice f)) = grid_choice f"
proof (cases "\<bar>trunc_to 5000 f - f\<bar> < \<bar>trunc_to 6250 f - f\<bar>")
  case True
  then have n: "\<not> 6250 dvd trunc_to 5000 f" by (rule err5_less_not_625)
  then have "\<bar>trunc_to 6250 (trunc_to 5000 f) - trunc_to 5000 f\<bar> \<noteq> 0"
    using trunc_to_err_zero[of 6250 "trunc_to 5000 f"] by simp
  with True show ?thesis by (simp add: grid_choice_def trunc_to_idem)
next
  case False
  then show ?thesis by (simp add: grid_choice_def trunc_to_idem)
qed

lemma MHz470: "MHz 470 = 470000000" by (simp add: MHz_def)

lemma resolve_alt: "tmv71_resolve_supported_freq f =
  (case grid_choice f of (s, r) \<Rightarrow> \<lparr> frequency = (if r \<ge> 470000000 then trunc_to 10000 r else r),
           tmv71_stepFreq.step = (if r \<ge> 470000000 then 4 else s) \<rparr>)"
  unfolding tmv71_resolve_supported_freq_def grid_choice_def Let_def MHz470 trunc_to_def
  by (cases "\<bar>f sdiv 5000 * 5000 - f\<bar> < \<bar>f sdiv 6250 * 6250 - f\<bar>") (simp_all only: if_True if_False prod.case)

lemma trunc10_ge:
  assumes "470000000 \<le> r"
  shows "470000000 \<le> trunc_to 10000 r"
proof -
  have "(470000000::int) div 10000 \<le> r div 10000"
    using assms by (intro zdiv_mono1) simp_all
  then have "47000 \<le> r div 10000" by simp
  then have "47000 * 10000 \<le> (r div 10000) * 10000" by (intro mult_right_mono) simp_all
  moreover have "0 \<le> r" using assms by simp
  ultimately show ?thesis by (simp add: trunc_to_def sdiv_pos)
qed

lemma grid_choice_on_10k:
  assumes "10000 dvd q"
  shows "snd (grid_choice q) = q"
proof -
  from assms have "5000 dvd q" by (rule dvd_trans[rotated]) simp
  then have "trunc_to 5000 q = q" by (simp add: trunc_to_fix)
  moreover have "\<not> 0 < \<bar>trunc_to 6250 q - q\<bar> \<Longrightarrow> trunc_to 6250 q = q" by simp
  ultimately show ?thesis by (simp add: grid_choice_def)
qed

lemma resolve_twice:
  "tmv71_resolve_supported_freq (frequency (tmv71_resolve_supported_freq f)) =
   tmv71_resolve_supported_freq f"
proof (cases "470000000 \<le> snd (grid_choice f)")
  case False
  obtain s r where sr: "grid_choice f = (s, r)" by (cases "grid_choice f")
  with False have r: "\<not> 470000000 \<le> r" by simp
  from sr r have fr: "tmv71_resolve_supported_freq f = \<lparr>frequency = r, tmv71_stepFreq.step = s\<rparr>"
    by (simp add: resolve_alt)
  from sr grid_choice_fix[of f] have "grid_choice r = (s, r)" by simp
  with r have "tmv71_resolve_supported_freq r = \<lparr>frequency = r, tmv71_stepFreq.step = s\<rparr>"
    by (simp add: resolve_alt)
  with fr show ?thesis by simp
next
  case True
  obtain s r where sr: "grid_choice f = (s, r)" by (cases "grid_choice f")
  with True have r: "470000000 \<le> r" by simp
  define q where "q = trunc_to 10000 r"
  from sr r have fq: "tmv71_resolve_supported_freq f = \<lparr>frequency = q, tmv71_stepFreq.step = 4\<rparr>"
    by (simp add: resolve_alt q_def)
  have q10: "10000 dvd q" by (simp add: q_def trunc_to_dvd)
  have qge: "470000000 \<le> q" unfolding q_def using r by (rule trunc10_ge)
  obtain s' r' where sr': "grid_choice q = (s', r')" by (cases "grid_choice q")
  have "snd (grid_choice q) = q" using q10 by (rule grid_choice_on_10k)
  with sr' have r': "r' = q" by simp
  have "trunc_to 10000 q = q" using q10 by (simp add: trunc_to_fix)
  with sr' r' qge have "tmv71_resolve_supported_freq q = \<lparr>frequency = q, tmv71_stepFreq.step = 4\<rparr>"
    by (simp add: resolve_alt)
  with fq show ?thesis by simp
qed

text \<open>
  Claim C9. The snap is idempotent: snapping a frequency that the snap produced returns
  that frequency, and the step index chosen for it is the step index chosen the first
  time.
\<close>

theorem snap_idempotent:
  "frequency (tmv71_resolve_supported_freq (frequency (tmv71_resolve_supported_freq f))) =
     frequency (tmv71_resolve_supported_freq f) \<and>
   tmv71_stepFreq.step (tmv71_resolve_supported_freq (frequency (tmv71_resolve_supported_freq f))) =
     tmv71_stepFreq.step (tmv71_resolve_supported_freq f)"
proof -
  have "tmv71_resolve_supported_freq (frequency (tmv71_resolve_supported_freq f)) =
        tmv71_resolve_supported_freq f"
    by (rule resolve_twice)
  then show ?thesis by simp
qed

text \<open>
  Claim C3. The frequency sent is to be the nearer of the nearest multiples of 5 kHz
  and 6.25 kHz, with step index 0 for the 5 kHz grid. The source computes its
  candidates as \<open>round(freq / 5000) * 5000\<close> and \<open>round(freq / 6250) * 6250\<close> on an \<open>int\<close>:
  the division truncates and \<open>round\<close> receives an integer, so both candidates are
  truncations. For 145004999 Hz, 1 Hz below a multiple of 5 kHz, both candidates are
  145000000 Hz and the source sends that frequency with step index 1, where the
  nearest multiples are 145005000 Hz and 145006250 Hz and the claim gives 145005000 Hz
  with step index 0.
\<close>

theorem snap_truncates_candidates:
  "tmv71_resolve_supported_freq 145004999 = \<lparr> frequency = 145000000, tmv71_stepFreq.step = 1 \<rparr> \<and>
   snap_claimed 145004999 = \<lparr> frequency = 145005000, tmv71_stepFreq.step = 0 \<rparr> \<and>
   nearest_multiple 5000 145004999 = 145005000 \<and>
   nearest_multiple 6250 145004999 = 145006250 \<and>
   tmv71_resolve_supported_freq 145004999 \<noteq> snap_claimed 145004999"
  by (simp add: snap_claimed_def nearest_multiple_def tmv71_resolve_supported_freq_def MHz_def
      signed_divide_int_def)

text \<open>
  On a frequency that lies on both grids the two errors are equal: the comparison of
  the source is a strict \<open><\<close> in favour of the 5 kHz candidate, so the tie takes the
  other branch and the step index is 1.
\<close>

lemma snap_tie_takes_625:
  "tmv71_resolve_supported_freq 146500000 \<noteq> snap_claimed 146500000 \<and>
   snap_claimed 146500000 = \<lparr> frequency = 146500000, tmv71_stepFreq.step = 0 \<rparr> \<and>
   tmv71_resolve_supported_freq 146500000 = \<lparr> frequency = 146500000, tmv71_stepFreq.step = 1 \<rparr>"
  by (simp add: snap_claimed_def nearest_multiple_def tmv71_resolve_supported_freq_def MHz_def
      signed_divide_int_def)

section \<open>Evaluation of the protocol operations\<close>

lemma replicate_numeral: "replicate (numeral k) x = x # replicate (pred_numeral k) x"
  by (simp add: numeral_eq_Suc)

lemmas printf_defs = snprintf_def fmt_0d_def fmt_d_def zero_pad_def dec.simps replicate_numeral

lemmas scanf_defs = sscanf_def isspace_def conv_d_def digit_val_def

lemma transaction_scripted:
  "kenwood_transaction (scripted sent ((retval, reply) # rest)) cmd =
     ((retval, reply), scripted (sent @ [cmd]) rest)"
  by (simp add: kenwood_transaction_def scripted_def)

lemma transaction_scripted_end:
  "kenwood_transaction (scripted sent []) cmd = ((- RIG_EIO, []), scripted (sent @ [cmd]) [])"
  by (simp add: kenwood_transaction_def scripted_def)

lemma EIO_not_OK: "- RIG_EIO \<noteq> RIG_OK"
  by (simp add: RIG_EIO_def RIG_OK_def)

lemma vfo_to_channel_A: "tmv71_vfo_to_channel rig RIG_VFO_A = (tmv71_BAND_A_CHANNEL, rig)"
  by (subst tmv71_vfo_to_channel.simps) simp




lemma me_query_998: "snprintf 8 (''ME '' @ fmt_0d 3 tmv71_BAND_A_CHANNEL) = ''ME 998''"
  by (simp add: tmv71_BAND_A_CHANNEL_def printf_defs)

lemma by_query_vfo_a: "snprintf 80 (''BY '' @ fmt_d RIG_VFO_A) = ''BY 1''"
  by (simp add: RIG_VFO_A_def printf_defs)

lemma scan_by_01: "sscanf ''BY 0,1'' ''BY %d'' = [0]"
  by (simp add: scanf_defs)

lemma scan_by_09: "sscanf ''BY 0,9'' ''BY %d'' = [0]"
  by (simp add: scanf_defs)

lemma pull_me_link_down:
  "rig_pull_me (scripted sent []) tmv71_BAND_A_CHANNEL =
     (Inl (- RIG_EIO), scripted (sent @ [''ME 998'']) [])"
  unfolding rig_pull_me_def me_query_998
  by (simp add: transaction_scripted_end EIO_not_OK)

lemma do_get_tone_link_down:
  "tmv71_do_get_tone wild (scripted [] []) RIG_VFO_A ty tone0 =
     ((- RIG_EIO, tone0), scripted [''ME 998''] [])"
  by (simp add: tmv71_do_get_tone_def vfo_to_channel_A pull_me_link_down)

lemma push_tx_link_down: "rig_push_tx (scripted [] []) = (- RIG_EIO, scripted [''TX''] [])"
  by (simp add: rig_push_tx_def transaction_scripted_end snprintf_def)

lemma push_rx_link_down: "rig_push_rx (scripted [] []) = (- RIG_EIO, scripted [''RX''] [])"
  by (simp add: rig_push_rx_def transaction_scripted_end snprintf_def)

section \<open>Session state\<close>

text \<open>
  Claim C4. On session open the state is to become TX = A, RX = A, split off, and no
  command is sent. \<open>tmv71_open\<close> sends nothing, but it assigns \<open>vfo_tx\<close> twice and never
  \<open>vfo_rx\<close> or \<open>split_mode_active\<close>: from the zero-initialised state the RX VFO stays
  \<open>RIG_VFO_NONE\<close>, and after a session that ended in split mode both the RX VFO and
  the split flag survive the next open.
\<close>

theorem open_leaves_rx_and_split:
  "tmv71_open st rig = (0, st\<lparr>vfo_tx := RIG_VFO_A\<rparr>, rig) \<and>
   tmv71_open \<lparr>vfo_tx = 0, vfo_rx = 0, split_mode_active = 0\<rparr> rig =
     (0, \<lparr>vfo_tx = RIG_VFO_A, vfo_rx = RIG_VFO_NONE, split_mode_active = RIG_SPLIT_OFF\<rparr>, rig) \<and>
   RIG_VFO_NONE \<noteq> RIG_VFO_A \<and>
   tmv71_open \<lparr>vfo_tx = RIG_VFO_B, vfo_rx = RIG_VFO_B, split_mode_active = RIG_SPLIT_ON\<rparr> rig =
     (0, \<lparr>vfo_tx = RIG_VFO_A, vfo_rx = RIG_VFO_B, split_mode_active = RIG_SPLIT_ON\<rparr>, rig)"
  by (simp add: tmv71_open_def RIG_VFO_NONE_def RIG_VFO_A_def RIG_SPLIT_OFF_def)

text \<open>
  Claim C10. \<open>tmv71_get_split_vfo\<close> writes the session's TX VFO to \<open>txvfo\<close> and never
  writes \<open>split\<close>: whatever the session state, the radio's answer and the return code,
  the caller's \<open>split\<close> variable holds on return what it held before.
\<close>

theorem get_split_vfo_frame:
  "\<exists>retval rig1. tmv71_get_split_vfo st rig vfo split0 txvfo0 = ((retval, split0, vfo_tx st), rig1)"
  by (simp add: tmv71_get_split_vfo_def Let_def split: prod.splits sum.splits)

section \<open>Carrier detect and PTT\<close>

text \<open>
  Claim C7. Get-DCD is to map the squelch-open flag of the BY reply: \<open>BY 0,1\<close> to DCD
  on, \<open>BY 0,9\<close> to a rejected error. The format \<open>BY %d\<close> of \<open>rig_pull_by\<close> reads the
  first field of the reply, the band: both replies give DCD off with \<open>RIG_OK\<close>. The
  query carries the VFO number, not the band.
\<close>

theorem get_dcd_reads_band_field:
  "tmv71_get_dcd u (scripted [] [(RIG_OK, ''BY 0,1'')]) RIG_VFO_A =
     ((RIG_OK, Some RIG_DCD_OFF), scripted [''BY 1''] []) \<and>
   tmv71_get_dcd u (scripted [] [(RIG_OK, ''BY 0,9'')]) RIG_VFO_A =
     ((RIG_OK, Some RIG_DCD_OFF), scripted [''BY 1''] [])"
  unfolding tmv71_get_dcd_def rig_pull_by_def by_query_vfo_a
  by (simp add: transaction_scripted scan_by_01 scan_by_09)

text \<open>
  Claim C8. Every public operation is to return the error of a failed inner exchange.
  On a link where every exchange fails with an I/O error, \<open>tmv71_set_ptt\<close> returns
  \<open>RIG_OK\<close> for both PTT values and the three tone getters return \<open>RIG_OK\<close>, leaving
  the caller's tone as it was.
\<close>

theorem set_ptt_and_tone_getters_swallow_errors:
  "rig_push_tx (scripted [] []) = (- RIG_EIO, scripted [''TX''] []) \<and>
   tmv71_set_ptt (scripted [] []) vfo RIG_PTT_ON = (RIG_OK, scripted [''TX''] []) \<and>
   rig_push_rx (scripted [] []) = (- RIG_EIO, scripted [''RX''] []) \<and>
   tmv71_set_ptt (scripted [] []) vfo RIG_PTT_OFF = (RIG_OK, scripted [''RX''] []) \<and>
   rig_pull_me (scripted [] []) tmv71_BAND_A_CHANNEL = (Inl (- RIG_EIO), scripted [''ME 998''] []) \<and>
   tmv71_get_ctcss_tone wild (scripted [] []) RIG_VFO_A tone0 =
     ((RIG_OK, tone0), scripted [''ME 998''] []) \<and>
   tmv71_get_ctcss_sql wild (scripted [] []) RIG_VFO_A tone0 =
     ((RIG_OK, tone0), scripted [''ME 998''] []) \<and>
   tmv71_get_dcs_sql wild (scripted [] []) RIG_VFO_A tone0 =
     ((RIG_OK, tone0), scripted [''ME 998''] []) \<and>
   - RIG_EIO \<noteq> RIG_OK"
proof -
  have "rig_pull_me (scripted [] []) tmv71_BAND_A_CHANNEL = (Inl (- RIG_EIO), scripted [''ME 998''] [])"
    using pull_me_link_down[of "[]"] by simp
  then show ?thesis
    by (simp add: tmv71_set_ptt_def push_tx_link_down push_rx_link_down
        tmv71_get_ctcss_tone_def tmv71_get_ctcss_sql_def tmv71_get_dcs_sql_def
        do_get_tone_link_down RIG_PTT_ON_def RIG_PTT_OFF_def RIG_OK_def RIG_EIO_def)
qed

section \<open>Partial update\<close>

lemma conditional_assignment:
  "(let m = (if b then \<lparr>channel = c0, freq = c1, step = c2, shift = c3, reverse = c4, tone = c5, ct = c6, dcs = c7, tone_freq = c8, ct_freq = c9, dcs_val = c10, offset = c11, mode = c12, tx_freq = c13, tx_step = c14, lockout = c15\<rparr>\<lparr>freq := x\<rparr> else \<lparr>channel = c0, freq = c1, step = c2, shift = c3, reverse = c4, tone = c5, ct = c6, dcs = c7, tone_freq = c8, ct_freq = c9, dcs_val = c10, offset = c11, mode = c12, tx_freq = c13, tx_step = c14, lockout = c15\<rparr>) in G m) =
     G \<lparr>channel = c0, freq = (if b then x else c1), step = c2, shift = c3, reverse = c4, tone = c5, ct = c6, dcs = c7, tone_freq = c8, ct_freq = c9, dcs_val = c10, offset = c11, mode = c12, tx_freq = c13, tx_step = c14, lockout = c15\<rparr> \<and>
   (let m = (if b then \<lparr>channel = c0, freq = c1, step = c2, shift = c3, reverse = c4, tone = c5, ct = c6, dcs = c7, tone_freq = c8, ct_freq = c9, dcs_val = c10, offset = c11, mode = c12, tx_freq = c13, tx_step = c14, lockout = c15\<rparr>\<lparr>step := x\<rparr> else \<lparr>channel = c0, freq = c1, step = c2, shift = c3, reverse = c4, tone = c5, ct = c6, dcs = c7, tone_freq = c8, ct_freq = c9, dcs_val = c10, offset = c11, mode = c12, tx_freq = c13, tx_step = c14, lockout = c15\<rparr>) in G m) =
     G \<lparr>channel = c0, freq = c1, step = (if b then x else c2), shift = c3, reverse = c4, tone = c5, ct = c6, dcs = c7, tone_freq = c8, ct_freq = c9, dcs_val = c10, offset = c11, mode = c12, tx_freq = c13, tx_step = c14, lockout = c15\<rparr> \<and>
   (let m = (if b then \<lparr>channel = c0, freq = c1, step = c2, shift = c3, reverse = c4, tone = c5, ct = c6, dcs = c7, tone_freq = c8, ct_freq = c9, dcs_val = c10, offset = c11, mode = c12, tx_freq = c13, tx_step = c14, lockout = c15\<rparr>\<lparr>shift := x\<rparr> else \<lparr>channel = c0, freq = c1, step = c2, shift = c3, reverse = c4, tone = c5, ct = c6, dcs = c7, tone_freq = c8, ct_freq = c9, dcs_val = c10, offset = c11, mode = c12, tx_freq = c13, tx_step = c14, lockout = c15\<rparr>) in G m) =
     G \<lparr>channel = c0, freq = c1, step = c2, shift = (if b then x else c3), reverse = c4, tone = c5, ct = c6, dcs = c7, tone_freq = c8, ct_freq = c9, dcs_val = c10, offset = c11, mode = c12, tx_freq = c13, tx_step = c14, lockout = c15\<rparr> \<and>
   (let m = (if b then \<lparr>channel = c0, freq = c1, step = c2, shift = c3, reverse = c4, tone = c5, ct = c6, dcs = c7, tone_freq = c8, ct_freq = c9, dcs_val = c10, offset = c11, mode = c12, tx_freq = c13, tx_step = c14, lockout = c15\<rparr>\<lparr>reverse := x\<rparr> else \<lparr>channel = c0, freq = c1, step = c2, shift = c3, reverse = c4, tone = c5, ct = c6, dcs = c7, tone_freq = c8, ct_freq = c9, dcs_val = c10, offset = c11, mode = c12, tx_freq = c13, tx_step = c14, lockout = c15\<rparr>) in G m) =
     G \<lparr>channel = c0, freq = c1, step = c2, shift = c3, reverse = (if b then x else c4), tone = c5, ct = c6, dcs = c7, tone_freq = c8, ct_freq = c9, dcs_val = c10, offset = c11, mode = c12, tx_freq = c13, tx_step = c14, lockout = c15\<rparr> \<and>
   (let m = (if b then \<lparr>channel = c0, freq = c1, step = c2, shift = c3, reverse = c4, tone = c5, ct = c6, dcs = c7, tone_freq = c8, ct_freq = c9, dcs_val = c10, offset = c11, mode = c12, tx_freq = c13, tx_step = c14, lockout = c15\<rparr>\<lparr>tone := x\<rparr> else \<lparr>channel = c0, freq = c1, step = c2, shift = c3, reverse = c4, tone = c5, ct = c6, dcs = c7, tone_freq = c8, ct_freq = c9, dcs_val = c10, offset = c11, mode = c12, tx_freq = c13, tx_step = c14, lockout = c15\<rparr>) in G m) =
     G \<lparr>channel = c0, freq = c1, step = c2, shift = c3, reverse = c4, tone = (if b then x else c5), ct = c6, dcs = c7, tone_freq = c8, ct_freq = c9, dcs_val = c10, offset = c11, mode = c12, tx_freq = c13, tx_step = c14, lockout = c15\<rparr> \<and>
   (let m = (if b then \<lparr>channel = c0, freq = c1, step = c2, shift = c3, reverse = c4, tone = c5, ct = c6, dcs = c7, tone_freq = c8, ct_freq = c9, dcs_val = c10, offset = c11, mode = c12, tx_freq = c13, tx_step = c14, lockout = c15\<rparr>\<lparr>ct := x\<rparr> else \<lparr>channel = c0, freq = c1, step = c2, shift = c3, reverse = c4, tone = c5, ct = c6, dcs = c7, tone_freq = c8, ct_freq = c9, dcs_val = c10, offset = c11, mode = c12, tx_freq = c13, tx_step = c14, lockout = c15\<rparr>) in G m) =
     G \<lparr>channel = c0, freq = c1, step = c2, shift = c3, reverse = c4, tone = c5, ct = (if b then x else c6), dcs = c7, tone_freq = c8, ct_freq = c9, dcs_val = c10, offset = c11, mode = c12, tx_freq = c13, tx_step = c14, lockout = c15\<rparr> \<and>
   (let m = (if b then \<lparr>channel = c0, freq = c1, step = c2, shift = c3, reverse = c4, tone = c5, ct = c6, dcs = c7, tone_freq = c8, ct_freq = c9, dcs_val = c10, offset = c11, mode = c12, tx_freq = c13, tx_step = c14, lockout = c15\<rparr>\<lparr>dcs := x\<rparr> else \<lparr>channel = c0, freq = c1, step = c2, shift = c3, reverse = c4, tone = c5, ct = c6, dcs = c7, tone_freq = c8, ct_freq = c9, dcs_val = c10, offset = c11, mode = c12, tx_freq = c13, tx_step = c14, lockout = c15\<rparr>) in G m) =
     G \<lparr>channel = c0, freq = c1, step = c2, shift = c3, reverse = c4, tone = c5, ct = c6, dcs = (if b then x else c7), tone_freq = c8, ct_freq = c9, dcs_val = c10, offset = c11, mode = c12, tx_freq = c13, tx_step = c14, lockout = c15\<rparr> \<and>
   (let m = (if b then \<lparr>channel = c0, freq = c1, step = c2, shift = c3, reverse = c4, tone = c5, ct = c6, dcs = c7, tone_freq = c8, ct_freq = c9, dcs_val = c10, offset = c11, mode = c12, tx_freq = c13, tx_step = c14, lockout = c15\<rparr>\<lparr>tone_freq := x\<rparr> else \<lparr>channel = c0, freq = c1, step = c2, shift = c3, reverse = c4, tone = c5, ct = c6, dcs = c7, tone_freq = c8, ct_freq = c9, dcs_val = c10, offset = c11, mode = c12, tx_freq = c13, tx_step = c14, lockout = c15\<rparr>) in G m) =
     G \<lparr>channel = c0, freq = c1, step = c2, shift = c3, reverse = c4, tone = c5, ct = c6, dcs = c7, tone_freq = (if b then x else c8), ct_freq = c9, dcs_val = c10, offset = c11, mode = c12, tx_freq = c13, tx_step = c14, lockout = c15\<rparr> \<and>
   (let m = (if b then \<lparr>channel = c0, freq = c1, step = c2, shift = c3, reverse = c4, tone = c5, ct = c6, dcs = c7, tone_freq = c8, ct_freq = c9, dcs_val = c10, offset = c11, mode = c12, tx_freq = c13, tx_step = c14, lockout = c15\<rparr>\<lparr>ct_freq := x\<rparr> else \<lparr>channel = c0, freq = c1, step = c2, shift = c3, reverse = c4, tone = c5, ct = c6, dcs = c7, tone_freq = c8, ct_freq = c9, dcs_val = c10, offset = c11, mode = c12, tx_freq = c13, tx_step = c14, lockout = c15\<rparr>) in G m) =
     G \<lparr>channel = c0, freq = c1, step = c2, shift = c3, reverse = c4, tone = c5, ct = c6, dcs = c7, tone_freq = c8, ct_freq = (if b then x else c9), dcs_val = c10, offset = c11, mode = c12, tx_freq = c13, tx_step = c14, lockout = c15\<rparr> \<and>
   (let m = (if b then \<lparr>channel = c0, freq = c1, step = c2, shift = c3, reverse = c4, tone = c5, ct = c6, dcs = c7, tone_freq = c8, ct_freq = c9, dcs_val = c10, offset = c11, mode = c12, tx_freq = c13, tx_step = c14, lockout = c15\<rparr>\<lparr>dcs_val := x\<rparr> else \<lparr>channel = c0, freq = c1, step = c2, shift = c3, reverse = c4, tone = c5, ct = c6, dcs = c7, tone_freq = c8, ct_freq = c9, dcs_val = c10, offset = c11, mode = c12, tx_freq = c13, tx_step = c14, lockout = c15\<rparr>) in G m) =
     G \<lparr>channel = c0, freq = c1, step = c2, shift = c3, reverse = c4, tone = c5, ct = c6, dcs = c7, tone_freq = c8, ct_freq = c9, dcs_val = (if b then x else c10), offset = c11, mode = c12, tx_freq = c13, tx_step = c14, lockout = c15\<rparr> \<and>
   (let m = (if b then \<lparr>channel = c0, freq = c1, step = c2, shift = c3, reverse = c4, tone = c5, ct = c6, dcs = c7, tone_freq = c8, ct_freq = c9, dcs_val = c10, offset = c11, mode = c12, tx_freq = c13, tx_step = c14, lockout = c15\<rparr>\<lparr>offset := x\<rparr> else \<lparr>channel = c0, freq = c1, step = c2, shift = c3, reverse = c4, tone = c5, ct = c6, dcs = c7, tone_freq = c8, ct_freq = c9, dcs_val = c10, offset = c11, mode = c12, tx_freq = c13, tx_step = c14, lockout = c15\<rparr>) in G m) =
     G \<lparr>channel = c0, freq = c1, step = c2, shift = c3, reverse = c4, tone = c5, ct = c6, dcs = c7, tone_freq = c8, ct_freq = c9, dcs_val = c10, offset = (if b then x else c11), mode = c12, tx_freq = c13, tx_step = c14, lockout = c15\<rparr> \<and>
   (let m = (if b then \<lparr>channel = c0, freq = c1, step = c2, shift = c3, reverse = c4, tone = c5, ct = c6, dcs = c7, tone_freq = c8, ct_freq = c9, dcs_val = c10, offset = c11, mode = c12, tx_freq = c13, tx_step = c14, lockout = c15\<rparr>\<lparr>mode := x\<rparr> else \<lparr>channel = c0, freq = c1, step = c2, shift = c3, reverse = c4, tone = c5, ct = c6, dcs = c7, tone_freq = c8, ct_freq = c9, dcs_val = c10, offset = c11, mode = c12, tx_freq = c13, tx_step = c14, lockout = c15\<rparr>) in G m) =
     G \<lparr>channel = c0, freq = c1, step = c2, shift = c3, reverse = c4, tone = c5, ct = c6, dcs = c7, tone_freq = c8, ct_freq = c9, dcs_val = c10, offset = c11, mode = (if b then x else c12), tx_freq = c13, tx_step = c14, lockout = c15\<rparr> \<and>
   (let m = (if b then \<lparr>channel = c0, freq = c1, step = c2, shift = c3, reverse = c4, tone = c5, ct = c6, dcs = c7, tone_freq = c8, ct_freq = c9, dcs_val = c10, offset = c11, mode = c12, tx_freq = c13, tx_step = c14, lockout = c15\<rparr>\<lparr>tx_freq := x\<rparr> else \<lparr>channel = c0, freq = c1, step = c2, shift = c3, reverse = c4, tone = c5, ct = c6, dcs = c7, tone_freq = c8, ct_freq = c9, dcs_val = c10, offset = c11, mode = c12, tx_freq = c13, tx_step = c14, lockout = c15\<rparr>) in G m) =
     G \<lparr>channel = c0, freq = c1, step = c2, shift = c3, reverse = c4, tone = c5, ct = c6, dcs = c7, tone_freq = c8, ct_freq = c9, dcs_val = c10, offset = c11, mode = c12, tx_freq = (if b then x else c13), tx_step = c14, lockout = c15\<rparr> \<and>
   (let m = (if b then \<lparr>channel = c0, freq = c1, step = c2, shift = c3, reverse = c4, tone = c5, ct = c6, dcs = c7, tone_freq = c8, ct_freq = c9, dcs_val = c10, offset = c11, mode = c12, tx_freq = c13, tx_step = c14, lockout = c15\<rparr>\<lparr>tx_step := x\<rparr> else \<lparr>channel = c0, freq = c1, step = c2, shift = c3, reverse = c4, tone = c5, ct = c6, dcs = c7, tone_freq = c8, ct_freq = c9, dcs_val = c10, offset = c11, mode = c12, tx_freq = c13, tx_step = c14, lockout = c15\<rparr>) in G m) =
     G \<lparr>channel = c0, freq = c1, step = c2, shift = c3, reverse = c4, tone = c5, ct = c6, dcs = c7, tone_freq = c8, ct_freq = c9, dcs_val = c10, offset = c11, mode = c12, tx_freq = c13, tx_step = (if b then x else c14), lockout = c15\<rparr> \<and>
   (let m = (if b then \<lparr>channel = c0, freq = c1, step = c2, shift = c3, reverse = c4, tone = c5, ct = c6, dcs = c7, tone_freq = c8, ct_freq = c9, dcs_val = c10, offset = c11, mode = c12, tx_freq = c13, tx_step = c14, lockout = c15\<rparr>\<lparr>lockout := x\<rparr> else \<lparr>channel = c0, freq = c1, step = c2, shift = c3, reverse = c4, tone = c5, ct = c6, dcs = c7, tone_freq = c8, ct_freq = c9, dcs_val = c10, offset = c11, mode = c12, tx_freq = c13, tx_step = c14, lockout = c15\<rparr>) in G m) =
     G \<lparr>channel = c0, freq = c1, step = c2, shift = c3, reverse = c4, tone = c5, ct = c6, dcs = c7, tone_freq = c8, ct_freq = c9, dcs_val = c10, offset = c11, mode = c12, tx_freq = c13, tx_step = c14, lockout = (if b then x else c15)\<rparr>"
  by (cases b) simp_all

lemma sequential_overlay:
  "(let me_current = (if freq me_new \<noteq> - 1 then me_current\<lparr>freq := freq me_new\<rparr> else me_current);
        me_current = (if step me_new \<noteq> - 1 then me_current\<lparr>step := step me_new\<rparr> else me_current);
        me_current = (if shift me_new \<noteq> - 1 then me_current\<lparr>shift := shift me_new\<rparr> else me_current);
        me_current = (if reverse me_new \<noteq> - 1 then me_current\<lparr>reverse := reverse me_new\<rparr> else me_current);
        me_current = (if tone me_new \<noteq> - 1 then me_current\<lparr>tone := tone me_new\<rparr> else me_current);
        me_current = (if ct me_new \<noteq> - 1 then me_current\<lparr>ct := ct me_new\<rparr> else me_current);
        me_current = (if dcs me_new \<noteq> - 1 then me_current\<lparr>dcs := dcs me_new\<rparr> else me_current);
        me_current = (if tone_freq me_new \<noteq> - 1 then me_current\<lparr>tone_freq := tone_freq me_new\<rparr> else me_current);
        me_current = (if ct_freq me_new \<noteq> - 1 then me_current\<lparr>ct_freq := ct_freq me_new\<rparr> else me_current);
        me_current = (if dcs_val me_new \<noteq> - 1 then me_current\<lparr>dcs_val := dcs_val me_new\<rparr> else me_current);
        me_current = (if offset me_new \<noteq> - 1 then me_current\<lparr>offset := offset me_new\<rparr> else me_current);
        me_current = (if mode me_new \<noteq> - 1 then me_current\<lparr>mode := mode me_new\<rparr> else me_current);
        me_current = (if tx_freq me_new \<noteq> - 1 then me_current\<lparr>tx_freq := tx_freq me_new\<rparr> else me_current);
        me_current = (if tx_step me_new \<noteq> - 1 then me_current\<lparr>tx_step := tx_step me_new\<rparr> else me_current);
        me_current = (if lockout me_new \<noteq> - 1 then me_current\<lparr>lockout := lockout me_new\<rparr> else me_current)
    in f me_current) = f (overlay me_current me_new)"
proof (cases me_current)
  case (fields c0 c1 c2 c3 c4 c5 c6 c7 c8 c9 c10 c11 c12 c13 c14 c15)
  show ?thesis
    unfolding fields by (simp only: conditional_assignment) (simp add: overlay_def split del: if_split cong del: if_weak_cong)
qed

lemma update_is_rmw:
  "tmv71_update_memory_channel rig ch me_new = read_modify_write rig ch me_new"
  unfolding tmv71_update_memory_channel_def read_modify_write_def sequential_overlay ..




lemma do_set_tone_rmw:
  "tmv71_do_set_tone u wild rig vfo ty t =
     rmw_on_vfo rig vfo
       ((tmv71_get_update_me u)\<lparr>tone := (if ty = tx_tone then 1 else 0),
                                 ct := (if ty = ctcss then 1 else 0),
                                 dcs := (if ty = tmv71_tone_type.dcs then 1 else 0)\<rparr>)"
  by (cases ty)
     (simp_all add: tmv71_do_set_tone_def rmw_on_vfo_def update_is_rmw Let_def split_def
        tmv71_get_update_me_def)


lemma scan_me_reply_05:
  "sscanf ''ME 998,0146500000,0,0,0,0,0,0,05,00,000,00000000,0,0000000000,0,0'' ''ME %d,%lf,%d,%d,%d,%d,%d,%d,%d,%d,%d,%d,%d,%lf,%d,%d'' =
     [998, 146500000, 0, 0, 0, 0, 0, 0, 5, 0, 0, 0, 0, 0, 0, 0]"
  by (simp add: scanf_defs)

lemma pull_me_scripted_05:
  "rig_pull_me (scripted sent ((RIG_OK, ''ME 998,0146500000,0,0,0,0,0,0,05,00,000,00000000,0,0000000000,0,0'') # rest)) tmv71_BAND_A_CHANNEL =
     (Inr \<lparr>channel = 998, freq = 146500000, step = 0, shift = 0, reverse = 0, tone = 0, ct = 0, dcs = 0, tone_freq = 5, ct_freq = 0, dcs_val = 0, offset = 0, mode = 0, tx_freq = 0, tx_step = 0, lockout = 0\<rparr>, scripted (sent @ [''ME 998'']) rest)"
  unfolding rig_pull_me_def me_query_998
  by (simp add: transaction_scripted scan_me_reply_05)

lemma push_me_scripted:
  "rig_push_me (scripted sent ((retval, reply) # rest)) me_struct =
     (retval, scripted (sent @ [snprintf 80 (me_command me_struct)]) rest)"
  by (simp add: rig_push_me_def transaction_scripted)

lemma rmw_scripted_05:
  "read_modify_write (scripted sent ((RIG_OK, ''ME 998,0146500000,0,0,0,0,0,0,05,00,000,00000000,0,0000000000,0,0'') # (retval, reply) # rest))
       tmv71_BAND_A_CHANNEL me_new =
     (retval, scripted (sent @ [''ME 998'',
        snprintf 80 (me_command (overlay \<lparr>channel = 998, freq = 146500000, step = 0, shift = 0, reverse = 0, tone = 0, ct = 0, dcs = 0, tone_freq = 5, ct_freq = 0, dcs_val = 0, offset = 0, mode = 0, tx_freq = 0, tx_step = 0, lockout = 0\<rparr> me_new))]) rest)"
  by (simp add: read_modify_write_def pull_me_scripted_05 push_me_scripted)

lemma rmw_link_down:
  "read_modify_write (scripted [] []) tmv71_BAND_A_CHANNEL me_new =
     (- RIG_EIO, scripted [''ME 998''] [])"
  using pull_me_link_down[of "[]"] by (simp add: read_modify_write_def)

lemma command_tone_on_05:
  "snprintf 80 (me_command (overlay \<lparr>channel = 998, freq = 146500000, step = 0, shift = 0, reverse = 0, tone = 0, ct = 0, dcs = 0, tone_freq = 5, ct_freq = 0, dcs_val = 0, offset = 0, mode = 0, tx_freq = 0, tx_step = 0, lockout = 0\<rparr>
       ((tmv71_get_update_me u)\<lparr>tone := 1, ct := 0, dcs := 0\<rparr>))) =
   ''ME 998,0146500000,0,0,0,1,0,0,05,00,000,00000000,0,0000000000,0,0''"
  by (simp add: overlay_def tmv71_get_update_me_def me_command_def printf_defs)


lemma rmw_cong:
  assumes "\<And>me_current. overlay me_current me_new = overlay me_current me_new'"
  shows "read_modify_write rig ch me_new = read_modify_write rig ch me_new'"
  by (simp add: read_modify_write_def assms split: prod.splits sum.splits)



text \<open>
  Claim C6. A tone setter is to leave at most one of the three enable flags set, and
  set-ctcss-tone with 100.0 Hz is to overlay \<open>tone = 1, ct = 0, dcs = 0, tone_freq = 11\<close>.
  \<open>tmv71_do_set_tone\<close> sets the flags, but the code it looks up goes to a local
  variable and never into the partial record: on a channel whose tone index is 5 the
  record pushed still carries index 5, and the result of a tone setter does not depend
  on the tone requested.
\<close>

theorem tone_setter_keeps_tone_index:
  "tmv71_set_ctcss_tone u wild (scripted [] [(RIG_OK, ''ME 998,0146500000,0,0,0,0,0,0,05,00,000,00000000,0,0000000000,0,0''), (RIG_OK, [])]) RIG_VFO_A 1000 =
     (RIG_OK, scripted [''ME 998'',
        ''ME 998,0146500000,0,0,0,1,0,0,05,00,000,00000000,0,0000000000,0,0''] []) \<and>
   tmv71_do_set_tone u wild rig vfo ty t = tmv71_do_set_tone u' wild' rig vfo ty t'"
proof -
  have "read_modify_write r ch ((tmv71_get_update_me u)\<lparr>tone := a, ct := b, dcs := c\<rparr>) =
        read_modify_write r ch ((tmv71_get_update_me u')\<lparr>tone := a, ct := b, dcs := c\<rparr>)"
    for r :: "'a RIG" and ch a b c
    by (rule rmw_cong) (simp add: overlay_def tmv71_get_update_me_def)
  then have "tmv71_do_set_tone u wild rig vfo ty t = tmv71_do_set_tone u' wild' rig vfo ty t'"
    by (simp add: do_set_tone_rmw rmw_on_vfo_def split_def)
  then show ?thesis
    by (simp add: tmv71_set_ctcss_tone_def do_set_tone_rmw rmw_on_vfo_def vfo_to_channel_A
        rmw_scripted_05 command_tone_on_05)
qed

section \<open>Split routing\<close>











section \<open>VFO selection and provisioning\<close>

lemma commands_vfo_a:
  "snprintf 80 (''VM '' @ fmt_d (tmv71_transform_vfo_to_band RIG_VFO_A) @ '','' @ fmt_d tmv71_BAND_MODE_MEMORY) = ''VM 0,1''"
  "snprintf 80 (''MR '' @ fmt_d (tmv71_transform_vfo_to_band RIG_VFO_A) @ '','' @ fmt_d tmv71_BAND_A_CHANNEL) = ''MR 0,998''"
  "snprintf 80 (''BC '' @ fmt_d (tmv71_transform_vfo_to_band RIG_VFO_A) @ '','' @ fmt_d (tmv71_transform_vfo_to_band RIG_VFO_A)) = ''BC 0,0''"
  "snprintf 80 (me_command (clean_memory_channel tmv71_BAND_A_CHANNEL)) =
     ''ME 998,0146500000,0,0,0,0,0,0,00,00,000,00000000,0,0000000000,0,0''"
  by (simp_all add: tmv71_transform_vfo_to_band_def tmv71_BAND_A_def tmv71_BAND_MODE_MEMORY_def
      tmv71_BAND_A_CHANNEL_def me_command_def clean_memory_channel_def printf_defs)

lemma commands_vfo_b:
  "snprintf 8 (''ME '' @ fmt_0d 3 tmv71_BAND_B_CHANNEL) = ''ME 999''"
  "snprintf 80 (''VM '' @ fmt_d (tmv71_transform_vfo_to_band RIG_VFO_B) @ '','' @ fmt_d tmv71_BAND_MODE_MEMORY) = ''VM 1,1''"
  "snprintf 80 (''MR '' @ fmt_d (tmv71_transform_vfo_to_band RIG_VFO_B) @ '','' @ fmt_d tmv71_BAND_B_CHANNEL) = ''MR 1,999''"
  "snprintf 80 (''BC '' @ fmt_d (tmv71_transform_vfo_to_band RIG_VFO_B) @ '','' @ fmt_d (tmv71_transform_vfo_to_band RIG_VFO_B)) = ''BC 1,1''"
  "snprintf 80 (me_command (clean_memory_channel tmv71_BAND_B_CHANNEL)) =
     ''ME 999,0146500000,0,0,0,0,0,0,00,00,000,00000000,0,0000000000,0,0''"
  by (simp_all add: tmv71_transform_vfo_to_band_def tmv71_BAND_B_def tmv71_BAND_MODE_MEMORY_def
      RIG_VFO_A_def RIG_VFO_B_def
      tmv71_BAND_B_CHANNEL_def me_command_def clean_memory_channel_def printf_defs)

lemma channel_pos: "0 < tmv71_BAND_A_CHANNEL" "0 < tmv71_BAND_B_CHANNEL"
  by (simp_all add: tmv71_BAND_A_CHANNEL_def tmv71_BAND_B_CHANNEL_def)

lemma select_scripted_a:
  "rig_push_vm (scripted sent ((retval, reply) # rest)) RIG_VFO_A tmv71_BAND_MODE_MEMORY =
     (retval, scripted (sent @ [''VM 0,1'']) rest)"
  "rig_push_mr (scripted sent ((retval, reply) # rest)) RIG_VFO_A tmv71_BAND_A_CHANNEL =
     (retval, scripted (sent @ [''MR 0,998'']) rest)"
  "rig_push_bc (scripted sent ((retval, reply) # rest)) RIG_VFO_A RIG_VFO_A =
     (retval, scripted (sent @ [''BC 0,0'']) rest)"
  "rig_push_me (scripted sent ((retval, reply) # rest)) (clean_memory_channel tmv71_BAND_A_CHANNEL) =
     (retval, scripted (sent @
        [''ME 998,0146500000,0,0,0,0,0,0,00,00,000,00000000,0,0000000000,0,0'']) rest)"
  unfolding rig_push_vm_def rig_push_mr_def rig_push_bc_def rig_push_me_def Let_def commands_vfo_a
  by (simp_all add: transaction_scripted)

lemma select_scripted_b:
  "rig_push_vm (scripted sent ((retval, reply) # rest)) RIG_VFO_B tmv71_BAND_MODE_MEMORY =
     (retval, scripted (sent @ [''VM 1,1'']) rest)"
  "rig_push_mr (scripted sent ((retval, reply) # rest)) RIG_VFO_B tmv71_BAND_B_CHANNEL =
     (retval, scripted (sent @ [''MR 1,999'']) rest)"
  "rig_push_bc (scripted sent ((retval, reply) # rest)) RIG_VFO_B RIG_VFO_B =
     (retval, scripted (sent @ [''BC 1,1'']) rest)"
  "rig_push_me (scripted sent ((retval, reply) # rest)) (clean_memory_channel tmv71_BAND_B_CHANNEL) =
     (retval, scripted (sent @
        [''ME 999,0146500000,0,0,0,0,0,0,00,00,000,00000000,0,0000000000,0,0'']) rest)"
  unfolding rig_push_vm_def rig_push_mr_def rig_push_bc_def rig_push_me_def Let_def commands_vfo_b
  by (simp_all add: transaction_scripted)

lemma pull_me_scripted_io_error:
  "rig_pull_me (scripted sent ((- RIG_EIO, reply) # rest)) tmv71_BAND_A_CHANNEL =
     (Inl (- RIG_EIO), scripted (sent @ [''ME 998'']) rest)"
  unfolding rig_pull_me_def me_query_998
  by (simp add: transaction_scripted EIO_not_OK)

lemma scan_me_reply_N:
  "sscanf ''N'' ''ME %d,%lf,%d,%d,%d,%d,%d,%d,%d,%d,%d,%d,%d,%lf,%d,%d'' = []"
  by (simp add: scanf_defs)

lemma pull_me_scripted_rejected:
  "rig_pull_me (scripted sent ((RIG_OK, ''N'') # rest)) tmv71_BAND_B_CHANNEL =
     (Inl (- RIG_ERJCTED), scripted (sent @ [''ME 999'']) rest)"
  unfolding rig_pull_me_def commands_vfo_b
  by (simp add: transaction_scripted scan_me_reply_N)

lemma set_vfo_select_pull_failed:
  assumes vm: "rig_push_vm rig ctrl tmv71_BAND_MODE_MEMORY = (RIG_OK, rig1)"
    and ch: "0 < ch"
    and pull: "rig_pull_me rig1 ch = (Inl e, rig2)"
  shows "tmv71_set_vfo_select rig ctrl ch =
     (case rig_push_me rig2 \<lparr>channel = ch, freq = 146500000, step = 0, shift = 0, reverse = 0, tone = 0, ct = 0, dcs = 0, tone_freq = 0, ct_freq = 0, dcs_val = 0, offset = 0, mode = 0, tx_freq = 0, tx_step = 0, lockout = 0\<rparr> of
        (r3, rig3) \<Rightarrow>
          if r3 \<noteq> RIG_OK then (r3, rig3)
          else (case rig_push_mr rig3 ctrl ch of
                  (r4, rig4) \<Rightarrow> if r4 \<noteq> RIG_OK then (r4, rig4) else rig_push_bc rig4 ctrl ctrl))"
proof -
  obtain r3 rig3 where p3: "rig_push_me rig2 (clean_memory_channel ch) = (r3, rig3)"
    by (cases "rig_push_me rig2 (clean_memory_channel ch)")
  obtain r4 rig4 where p4: "rig_push_mr rig3 ctrl ch = (r4, rig4)"
    by (cases "rig_push_mr rig3 ctrl ch")
  obtain r5 rig5 where p5: "rig_push_bc rig4 ctrl ctrl = (r5, rig5)"
    by (cases "rig_push_bc rig4 ctrl ctrl")
  have "tmv71_set_vfo_select rig ctrl ch =
     (if r3 \<noteq> RIG_OK then (r3, rig3)
      else if r4 \<noteq> RIG_OK then (r4, rig4) else (r5, rig5))"
    using vm ch pull p3 p4 p5
    by (simp add: tmv71_set_vfo_select_def tmv71_create_clean_memory_channel_def)
  with p3 p4 p5 show ?thesis
    by (simp add: clean_memory_channel_def)
qed

text \<open>
  Claim C2, as stated: a pull of the virtual channel that fails with any error other
  than the rejected one makes set-VFO abort with that error. On a link where the ME
  query fails with an I/O error and every other exchange succeeds, \<open>tmv71_set_vfo\<close>
  pushes the clean record, selects the channel and returns \<open>RIG_OK\<close>: the source
  tests the pull for \<open>retval != RIG_OK\<close> only.
\<close>

theorem set_vfo_io_error_counterexample:
  "rig_pull_me (scripted [''VM 0,1''] [(- RIG_EIO, []), (RIG_OK, []), (RIG_OK, []), (RIG_OK, [])])
       tmv71_BAND_A_CHANNEL =
     (Inl (- RIG_EIO), scripted [''VM 0,1'', ''ME 998''] [(RIG_OK, []), (RIG_OK, []), (RIG_OK, [])]) \<and>
   - RIG_EIO \<noteq> - RIG_ERJCTED \<and>
   tmv71_set_vfo (scripted [] [(RIG_OK, []), (- RIG_EIO, []), (RIG_OK, []), (RIG_OK, []), (RIG_OK, [])])
       RIG_VFO_A =
     (RIG_OK, scripted [''VM 0,1'', ''ME 998'',
        ''ME 998,0146500000,0,0,0,0,0,0,00,00,000,00000000,0,0000000000,0,0'',
        ''MR 0,998'', ''BC 0,0''] [])"
proof -
  have "tmv71_set_vfo (scripted [] [(RIG_OK, []), (- RIG_EIO, []), (RIG_OK, []), (RIG_OK, []), (RIG_OK, [])])
       RIG_VFO_A =
     (RIG_OK, scripted [''VM 0,1'', ''ME 998'',
        ''ME 998,0146500000,0,0,0,0,0,0,00,00,000,00000000,0,0000000000,0,0'',
        ''MR 0,998'', ''BC 0,0''] [])"
    unfolding tmv71_set_vfo_def tmv71_set_vfo_select_def tmv71_create_clean_memory_channel_def
    by (simp add: select_scripted_a pull_me_scripted_io_error channel_pos)
  moreover have "- RIG_EIO \<noteq> - RIG_ERJCTED" by (simp add: RIG_EIO_def RIG_ERJCTED_def)
  ultimately show ?thesis
    using pull_me_scripted_io_error[of "[''VM 0,1'']" "[]" "[(RIG_OK, []), (RIG_OK, []), (RIG_OK, [])]"]
    by simp
qed

text \<open>
  Claim C2, amended: in set-VFO(A) or set-VFO(B), when the VM push has succeeded and
  the pull of the virtual channel (998 or 999) fails with any error, rejected or not,
  the core pushes a fresh ME record whose channel index is the reserved channel, whose
  RX frequency is 146500000 Hz and whose other fields are all zero; if that push fails
  set-VFO returns its error, and otherwise it continues the selection path (the MR
  push, then the BC push). The error of the pull is never returned.
\<close>

theorem set_vfo_provisions_on_any_pull_error:
  assumes "vfo = RIG_VFO_A \<and> ch = tmv71_BAND_A_CHANNEL \<or> vfo = RIG_VFO_B \<and> ch = tmv71_BAND_B_CHANNEL"
    and "rig_push_vm rig vfo tmv71_BAND_MODE_MEMORY = (RIG_OK, rig1)"
    and "rig_pull_me rig1 ch = (Inl e, rig2)"
  shows "tmv71_set_vfo rig vfo =
     (case rig_push_me rig2 \<lparr>channel = ch, freq = 146500000, step = 0, shift = 0, reverse = 0, tone = 0, ct = 0, dcs = 0, tone_freq = 0, ct_freq = 0, dcs_val = 0, offset = 0, mode = 0, tx_freq = 0, tx_step = 0, lockout = 0\<rparr> of
        (r3, rig3) \<Rightarrow>
          if r3 \<noteq> RIG_OK then (r3, rig3)
          else (case rig_push_mr rig3 vfo ch of
                  (r4, rig4) \<Rightarrow> if r4 \<noteq> RIG_OK then (r4, rig4) else rig_push_bc rig4 vfo vfo))"
proof -
  from assms(1) have ch: "0 < ch"
    by (auto simp: tmv71_BAND_A_CHANNEL_def tmv71_BAND_B_CHANNEL_def)
  from assms(1) have "tmv71_set_vfo rig vfo = tmv71_set_vfo_select rig vfo ch"
    by (auto simp: tmv71_set_vfo_def RIG_VFO_A_def RIG_VFO_B_def RIG_VFO_VFO_def)
  with set_vfo_select_pull_failed[OF assms(2) ch assms(3)] show ?thesis by simp
qed

theorem set_vfo_provisions_on_any_pull_error_witness:
  "rig_push_vm (scripted [] [(RIG_OK, []), (RIG_OK, ''N''), (RIG_OK, []), (RIG_OK, []), (RIG_OK, [])])
       RIG_VFO_B tmv71_BAND_MODE_MEMORY =
     (RIG_OK, scripted [''VM 1,1''] [(RIG_OK, ''N''), (RIG_OK, []), (RIG_OK, []), (RIG_OK, [])]) \<and>
   rig_pull_me (scripted [''VM 1,1''] [(RIG_OK, ''N''), (RIG_OK, []), (RIG_OK, []), (RIG_OK, [])])
       tmv71_BAND_B_CHANNEL =
     (Inl (- RIG_ERJCTED), scripted [''VM 1,1'', ''ME 999''] [(RIG_OK, []), (RIG_OK, []), (RIG_OK, [])]) \<and>
   tmv71_set_vfo (scripted [] [(RIG_OK, []), (RIG_OK, ''N''), (RIG_OK, []), (RIG_OK, []), (RIG_OK, [])])
       RIG_VFO_B =
     (RIG_OK, scripted [''VM 1,1'', ''ME 999'',
        ''ME 999,0146500000,0,0,0,0,0,0,00,00,000,00000000,0,0000000000,0,0'',
        ''MR 1,999'', ''BC 1,1''] [])"
proof -
  let ?rig = "scripted [] [(RIG_OK, []), (RIG_OK, ''N''), (RIG_OK, []), (RIG_OK, []), (RIG_OK, [])]"
  let ?rig1 = "scripted [''VM 1,1''] [(RIG_OK, ''N''), (RIG_OK, []), (RIG_OK, []), (RIG_OK, [])]"
  let ?rig2 = "scripted [''VM 1,1'', ''ME 999''] [(RIG_OK, []), (RIG_OK, []), (RIG_OK, [])]"
  have vm: "rig_push_vm ?rig RIG_VFO_B tmv71_BAND_MODE_MEMORY = (RIG_OK, ?rig1)"
    by (simp add: select_scripted_b)
  have pull: "rig_pull_me ?rig1 tmv71_BAND_B_CHANNEL = (Inl (- RIG_ERJCTED), ?rig2)"
    by (simp add: pull_me_scripted_rejected)
  have which: "RIG_VFO_B = RIG_VFO_A \<and> tmv71_BAND_B_CHANNEL = tmv71_BAND_A_CHANNEL \<or>
               RIG_VFO_B = RIG_VFO_B \<and> tmv71_BAND_B_CHANNEL = tmv71_BAND_B_CHANNEL"
    by simp
  have "\<lparr>channel = tmv71_BAND_B_CHANNEL, freq = 146500000, step = 0, shift = 0, reverse = 0, tone = 0, ct = 0, dcs = 0, tone_freq = 0, ct_freq = 0, dcs_val = 0, offset = 0, mode = 0, tx_freq = 0, tx_step = 0, lockout = 0\<rparr> = clean_memory_channel tmv71_BAND_B_CHANNEL"
    by (simp add: clean_memory_channel_def)
  with set_vfo_provisions_on_any_pull_error[OF which vm pull]
  have "tmv71_set_vfo ?rig RIG_VFO_B =
     (RIG_OK, scripted [''VM 1,1'', ''ME 999'',
        ''ME 999,0146500000,0,0,0,0,0,0,00,00,000,00000000,0,0000000000,0,0'',
        ''MR 1,999'', ''BC 1,1''] [])"
    by (simp add: select_scripted_b)
  with vm pull show ?thesis by simp
qed

end
